theory Spec2Isabelle
  imports Main "HOL-Library.Multiset"
begin

section \<open>JavaScript strings, arrays and objects as the program uses them\<close>

text \<open>
  A JavaScript string is a \<^typ>\<open>string\<close>; a character is read as a code unit between 0 and
  255. A string is truthy when it is not empty, and an absent (\<^verbatim>\<open>undefined\<close>) field is
  falsy: the fields of the generation result are \<^typ>\<open>string option\<close>.
\<close>

definition truthy :: "string \<Rightarrow> bool" where
  "truthy s \<longleftrightarrow> s \<noteq> []"

fun truthy_opt :: "string option \<Rightarrow> bool" where
  "truthy_opt None = False"
| "truthy_opt (Some s) = truthy s"

text \<open>
  \<^verbatim>\<open>String.prototype.trim\<close> strips white space and line terminators from both ends. Among
  the code units up to 255 these are TAB, LF, VT, FF, CR, SPACE and NBSP.
\<close>

definition js_whitespace :: "char \<Rightarrow> bool" where
  "js_whitespace c \<longleftrightarrow>
     c = CHR 0x09 \<or> c = CHR 0x0A \<or> c = CHR 0x0B \<or> c = CHR 0x0C \<or> c = CHR 0x0D \<or>
     c = CHR 0x20 \<or> c = CHR 0xA0"

definition trim :: "string \<Rightarrow> string" where
  "trim s = rev (dropWhile js_whitespace (rev (dropWhile js_whitespace s)))"

text \<open>
  \<^verbatim>\<open>Array.prototype.join\<close>: the result starts as the first element, and every later element
  is appended after the separator; the empty array gives the empty string.
\<close>

fun join_from :: "string \<Rightarrow> string \<Rightarrow> string list \<Rightarrow> string" where
  "join_from R sep [] = R"
| "join_from R sep (x # xs) = join_from (R @ sep @ x) sep xs"

definition join :: "string \<Rightarrow> string list \<Rightarrow> string" where
  "join sep xs = (case xs of [] \<Rightarrow> [] | x # rest \<Rightarrow> join_from x sep rest)"

text \<open>
  \<^verbatim>\<open>Array.prototype.slice(start, stop)\<close>: a negative index counts from the end, both are
  clamped to the length, and the elements from the first to just before the second are copied.
\<close>

definition slice :: "int \<Rightarrow> int \<Rightarrow> 'a list \<Rightarrow> 'a list" where
  "slice start stop xs =
     (let len = int (length xs);
          k = (if start < 0 then max (len + start) 0 else min start len);
          final = (if stop < 0 then max (len + stop) 0 else min stop len)
      in take (nat (final - k)) (drop (nat k) xs))"

text \<open>
  An object whose values are strings (\<^verbatim>\<open>UserPreferences\<close>) is the list of its own properties
  in the order \<^verbatim>\<open>Object.entries\<close> enumerates them: the array indices (canonical decimal
  numerals below \<open>2^32 - 1\<close>) in ascending order first, then the other names in the order
  of their creation.
\<close>

type_synonym UserPreferences = "(string \<times> string) list"

definition digit_val :: "char \<Rightarrow> nat" where
  "digit_val c = of_char c - 48"

definition is_digit :: "char \<Rightarrow> bool" where
  "is_digit c \<longleftrightarrow> 48 \<le> (of_char c :: nat) \<and> (of_char c :: nat) \<le> 57"

definition decimal :: "string \<Rightarrow> nat" where
  "decimal s = foldl (\<lambda>n c. 10 * n + digit_val c) 0 s"

definition array_index :: "string \<Rightarrow> nat option" where
  "array_index s =
     (if s \<noteq> [] \<and> list_all is_digit s \<and> (hd s \<noteq> CHR ''0'' \<or> length s = 1) \<and>
         length s \<le> 10 \<and> decimal s < 4294967295
      then Some (decimal s) else None)"

text \<open>
  Defining an own property: an existing name keeps its place and takes the new value, a new
  array index goes before the first name that is not a smaller array index, any other new
  name goes to the end.
\<close>

fun insert_index :: "nat \<Rightarrow> string \<Rightarrow> string \<Rightarrow> UserPreferences \<Rightarrow> UserPreferences" where
  "insert_index n k v [] = [(k, v)]"
| "insert_index n k v ((k', v') # rest) =
     (case array_index k' of
        None \<Rightarrow> (k, v) # (k', v') # rest
      | Some m \<Rightarrow> if n < m then (k, v) # (k', v') # rest
                  else (k', v') # insert_index n k v rest)"

definition js_define :: "UserPreferences \<Rightarrow> string \<Rightarrow> string \<Rightarrow> UserPreferences" where
  "js_define obj k v =
     (if k \<in> fst ` set obj then map (\<lambda>(k', v'). if k' = k then (k', v) else (k', v')) obj
      else case array_index k of
             None \<Rightarrow> obj @ [(k, v)]
           | Some n \<Rightarrow> insert_index n k v obj)"

text \<open>
  The assignment \<^verbatim>\<open>acc[k] = v\<close> on an object created by \<^verbatim>\<open>{}\<close> defines the property
  \<open>k\<close>, except for the name \<^verbatim>\<open>__proto__\<close>: that one is the accessor inherited from
  \<^verbatim>\<open>Object.prototype\<close>, whose setter ignores a value that is neither an object nor null, so
  the assignment of a string leaves the object as it was.
\<close>

definition js_assign :: "UserPreferences \<Rightarrow> string \<Rightarrow> string \<Rightarrow> UserPreferences" where
  "js_assign acc k v = (if k = ''__proto__'' then acc else js_define acc k v)"

section \<open>Data model (diaryService.ts, App.tsx)\<close>

record DiaryEntry =
  entry_id :: "nat option"
  entry_content :: string
  entry_summary :: string
  entry_learning :: string
  entry_created_at :: "string option"

text \<open>
  The object the generation backend is asked for. The response schema gives every field the
  type string and \<^verbatim>\<open>updatedPreferences\<close> the type of an object of two strings; the model
  keeps these types and lets every field be absent.
\<close>

record PrefUpdate =
  key :: "string option"
  val :: "string option"

record GenResult =
  summary :: "string option"
  learning :: "string option"
  chatResponse :: "string option"
  updatedPreferences :: "PrefUpdate option"

definition empty_object :: GenResult where
  "empty_object = \<lparr>summary = None, learning = None, chatResponse = None, updatedPreferences = None\<rparr>"

datatype Role = User | Assistant

text \<open>
  The \<^verbatim>\<open>data\<close> of a message: \<^verbatim>\<open>{summary: result.summary, learning: result.learning}\<close>,
  or nothing (\<^verbatim>\<open>null\<close>, or no such property).
\<close>

record Attached =
  data_summary :: "string option"
  data_learning :: "string option"

record Message =
  role :: Role
  content :: "string option"
  data :: "Attached option"

section \<open>Context Builder (the first part of generateDiary)\<close>

definition prefString :: "UserPreferences \<Rightarrow> string" where
  "prefString preferences = join ''\<newline>'' (map (\<lambda>(k, v). k @ '': '' @ v) preferences)"

definition historyString :: "DiaryEntry list \<Rightarrow> string" where
  "historyString history =
     join ''\<newline>\<newline>''
       (map (\<lambda>h. ''Past Entry: '' @ entry_summary h @ ''\<newline>Learning: '' @ entry_learning h)
          (slice 0 3 history))"

definition systemInstruction :: "UserPreferences \<Rightarrow> DiaryEntry list \<Rightarrow> string" where
  "systemInstruction preferences history =
     ''You are a helpful student diary assistant. \<newline>'' @
     ''Your goal is to help the user write their daily work summary and learning outcomes.\<newline>'' @
     ''Style: Student-like, simple English, relatable, slightly informal but organized.\<newline>'' @
     ''Tone: Encouraging and reflective.\<newline>'' @
     ''\<newline>'' @
     ''User Preferences:\<newline>'' @
     prefString preferences @ ''\<newline>'' @
     ''\<newline>'' @
     ''Context from past entries:\<newline>'' @
     historyString history @ ''\<newline>'' @
     ''\<newline>'' @
     ''When the user provides their day's content, generate a JSON object with:\<newline>'' @
     ''1. \"summary\": A concise summary of what they did today in a student style.\<newline>'' @
     ''2. \"learning\": What they learned from these activities.\<newline>'' @
     ''3. \"chatResponse\": A friendly message to the user acknowledging their day and maybe asking a follow-up or giving a small piece of advice.\<newline>'' @
     ''\<newline>'' @
     ''If the user is just chatting or providing personal details/preferences, update your understanding and respond naturally in the \"chatResponse\" field, leaving \"summary\" and \"learning\" empty or as appropriate.\<newline>'' @
     ''\<newline>'' @
     ''Always return JSON.''"

section \<open>Record Store (server.ts)\<close>

text \<open>
  The two tables, each as the list of its rows in the order of their insertion. The columns
  hold the strings the client sends; \<open>created_at\<close> is the reading of the store's clock
  (\<^verbatim>\<open>CURRENT_TIMESTAMP\<close>, in whole seconds), and \<open>seq\<close> is the counter SQLite keeps for an
  \<^verbatim>\<open>AUTOINCREMENT\<close> key.
\<close>

record Row =
  row_id :: nat
  row_content :: string
  row_summary :: string
  row_learning :: string
  row_created_at :: nat

record DB =
  entries_tbl :: "Row list"
  seq :: nat
  preferences_tbl :: "(string \<times> string) list"

definition empty_db :: DB where
  "empty_db = \<lparr>entries_tbl = [], seq = 0, preferences_tbl = []\<rparr>"

text \<open>
  \<^verbatim>\<open>POST /api/entries\<close>: one \<^verbatim>\<open>INSERT\<close>, no check of the body. The new key is one more than
  the largest key the table has had. The answer is \<^verbatim>\<open>{id: info.lastInsertRowid}\<close>.
\<close>

definition post_entries :: "nat \<Rightarrow> string \<Rightarrow> string \<Rightarrow> string \<Rightarrow> DB \<Rightarrow> nat \<times> DB" where
  "post_entries now c s l d =
     (let new_id = Suc (max (seq d) (fold max (map row_id (entries_tbl d)) 0));
          r = \<lparr>row_id = new_id, row_content = c, row_summary = s, row_learning = l,
               row_created_at = now\<rparr>
      in (new_id, d\<lparr>entries_tbl := entries_tbl d @ [r], seq := new_id\<rparr>))"


text \<open>
  \<^verbatim>\<open>POST /api/preferences\<close>: \<^verbatim>\<open>INSERT OR REPLACE\<close> on the primary key \<open>key\<close> deletes the row
  that has the key, if any, and inserts the new row.
\<close>

definition post_preferences :: "string \<Rightarrow> string \<Rightarrow> DB \<Rightarrow> DB" where
  "post_preferences k v d =
     d\<lparr>preferences_tbl := filter (\<lambda>(k', v'). k' \<noteq> k) (preferences_tbl d) @ [(k, v)]\<rparr>"

text \<open>
  \<^verbatim>\<open>GET /api/preferences\<close>: the rows are folded into an object by \<^verbatim>\<open>acc[curr.key] = curr.value\<close>,
  starting from \<^verbatim>\<open>{}\<close>; the client reads the same object back from the JSON text.
\<close>

definition get_preferences :: "DB \<Rightarrow> UserPreferences" where
  "get_preferences d = foldl (\<lambda>acc (k, v). js_assign acc k v) [] (preferences_tbl d)"

section \<open>The environment of one pipeline run\<close>

text \<open>
  What the generation backend does with the request: the call \<^verbatim>\<open>generateContent\<close> is rejected,
  or it resolves to a response whose \<open>text\<close> is absent or empty (\<open>NoText\<close>), is a text
  that \<^verbatim>\<open>JSON.parse\<close> rejects with a SyntaxError (\<open>NotJSON\<close>), or is the JSON text of an
  object of the schema's types (\<open>ObjectText\<close>, with the object \<^verbatim>\<open>JSON.parse\<close> makes of it).
\<close>

datatype reply_text = NoText | NotJSON | ObjectText GenResult

datatype backend_reply = Rejected | Resolved reply_text

text \<open>
  What happens to a store request: it is served (\<open>NoFault\<close>); \<^verbatim>\<open>fetch\<close> is rejected because the
  server cannot be reached (\<open>Unreachable\<close>); or the statement fails in the handler and Express
  answers with status 500 and an error page that is not JSON (\<open>StoreError\<close>). The table is
  written in the first case only.
\<close>

datatype fault = NoFault | Unreachable | StoreError

record Env =
  backend :: backend_reply
  pref_fault :: fault
  entry_fault :: fault
  server_time :: nat
  client_time :: string

datatype error = GenerationUnavailable | SyntaxError | NetworkError

text \<open>The requests a run sends out, in the order it sends them.\<close>

datatype call =
    GenerateContent string string
  | PostPreferences string string
  | PostEntries string string string

section \<open>Session state (App.tsx) and the world a run acts on\<close>

record App =
  entries :: "DiaryEntry list"
  preferences :: UserPreferences
  input :: string
  isLoading :: bool
  messages :: "Message list"

record World =
  app :: App
  db :: DB
  calls :: "call list"

definition send :: "call \<Rightarrow> World \<Rightarrow> World" where
  "send c w = w\<lparr>calls := calls w @ [c]\<rparr>"

section \<open>Generation Client and store client (diaryService.ts)\<close>

text \<open>
  A function that awaits returns the world it leaves behind together with either the value
  it resolves to (\<open>Inr\<close>) or the exception it is rejected with (\<open>Inl\<close>).
\<close>

definition generateDiary ::
  "Env \<Rightarrow> string \<Rightarrow> UserPreferences \<Rightarrow> DiaryEntry list \<Rightarrow> World \<Rightarrow> (error + GenResult) \<times> World" where
  "generateDiary env cont prefs history w =
     (let w1 = send (GenerateContent (systemInstruction prefs history) cont) w
      in case backend env of
           Rejected \<Rightarrow> (Inl GenerationUnavailable, w1)
         | Resolved NoText \<Rightarrow> (Inr empty_object, w1)
         | Resolved NotJSON \<Rightarrow> (Inl SyntaxError, w1)
         | Resolved (ObjectText r) \<Rightarrow> (Inr r, w1))"

definition savePreference :: "Env \<Rightarrow> string \<Rightarrow> string \<Rightarrow> World \<Rightarrow> (error + unit) \<times> World" where
  "savePreference env k v w =
     (let w1 = send (PostPreferences k v) w
      in case pref_fault env of
           Unreachable \<Rightarrow> (Inl NetworkError, w1)
         | StoreError \<Rightarrow> (Inr (), w1)
         | NoFault \<Rightarrow> (Inr (), w1\<lparr>db := post_preferences k v (db w1)\<rparr>))"

definition saveEntry :: "Env \<Rightarrow> DiaryEntry \<Rightarrow> World \<Rightarrow> (error + nat) \<times> World" where
  "saveEntry env e w =
     (let w1 = send (PostEntries (entry_content e) (entry_summary e) (entry_learning e)) w
      in case entry_fault env of
           Unreachable \<Rightarrow> (Inl NetworkError, w1)
         | StoreError \<Rightarrow> (Inl SyntaxError, w1)
         | NoFault \<Rightarrow>
             (let (new_id, d) = post_entries (server_time env) (entry_content e)
                                  (entry_summary e) (entry_learning e) (db w1)
              in (Inr new_id, w1\<lparr>db := d\<rparr>)))"

section \<open>Reconciliation Engine (handleSend in App.tsx)\<close>

definition setInput :: "string \<Rightarrow> World \<Rightarrow> World" where
  "setInput t w = w\<lparr>app := (app w)\<lparr>input := t\<rparr>\<rparr>"

definition setIsLoading :: "bool \<Rightarrow> World \<Rightarrow> World" where
  "setIsLoading b w = w\<lparr>app := (app w)\<lparr>isLoading := b\<rparr>\<rparr>"

definition setMessages :: "(Message list \<Rightarrow> Message list) \<Rightarrow> World \<Rightarrow> World" where
  "setMessages f w = w\<lparr>app := (app w)\<lparr>messages := f (messages (app w))\<rparr>\<rparr>"

definition setPreferences :: "(UserPreferences \<Rightarrow> UserPreferences) \<Rightarrow> World \<Rightarrow> World" where
  "setPreferences f w = w\<lparr>app := (app w)\<lparr>preferences := f (preferences (app w))\<rparr>\<rparr>"

definition setEntries :: "(DiaryEntry list \<Rightarrow> DiaryEntry list) \<Rightarrow> World \<Rightarrow> World" where
  "setEntries f w = w\<lparr>app := (app w)\<lparr>entries := f (entries (app w))\<rparr>\<rparr>"

definition user_turn :: "string \<Rightarrow> Message" where
  "user_turn userMessage = \<lparr>role = User, content = Some userMessage, data = None\<rparr>"

definition fallback_turn :: Message where
  "fallback_turn =
     \<lparr>role = Assistant, content = Some ''Oops, something went wrong. Can you try again?'',
      data = None\<rparr>"

text \<open>
  The assistant's turn of a run that reaches the end of the \<^verbatim>\<open>try\<close> block:
  \<^verbatim>\<open>data: result.summary ? { summary: result.summary, learning: result.learning } : null\<close>.
\<close>

definition assistant_turn :: "GenResult \<Rightarrow> Message" where
  "assistant_turn result =
     \<lparr>role = Assistant, content = chatResponse result,
      data = (if truthy_opt (summary result)
              then Some \<lparr>data_summary = summary result, data_learning = learning result\<rparr>
              else None)\<rparr>"

text \<open>
  \<^verbatim>\<open>if (result.updatedPreferences) { const { key, value } = ...; if (key && value) { ... } }\<close>.
  An object is truthy, so the outer test asks whether the field is there. The field the
  source calls \<open>value\<close> is \<open>val\<close> here.
\<close>

definition preference_step :: "Env \<Rightarrow> GenResult \<Rightarrow> World \<Rightarrow> (error + unit) \<times> World" where
  "preference_step env result w =
     (case updatedPreferences result of
        None \<Rightarrow> (Inr (), w)
      | Some up \<Rightarrow>
          (case (key up, val up) of
             (Some k, Some v) \<Rightarrow>
               if truthy k \<and> truthy v then
                 (case savePreference env k v w of
                    (Inl e, w1) \<Rightarrow> (Inl e, w1)
                  | (Inr u, w1) \<Rightarrow> (Inr (), setPreferences (\<lambda>prev. js_define prev k v) w1))
               else (Inr (), w)
           | _ \<Rightarrow> (Inr (), w)))"

text \<open>\<^verbatim>\<open>if (result.summary && result.learning) { ... saveEntry ... setEntries ... }\<close>.\<close>

definition entry_step :: "Env \<Rightarrow> string \<Rightarrow> GenResult \<Rightarrow> World \<Rightarrow> (error + unit) \<times> World" where
  "entry_step env userMessage result w =
     (case (summary result, learning result) of
        (Some s, Some l) \<Rightarrow>
          if truthy s \<and> truthy l then
            (let newEntry = \<lparr>entry_id = None, entry_content = userMessage, entry_summary = s,
                             entry_learning = l, entry_created_at = None\<rparr>
             in case saveEntry env newEntry w of
                  (Inl e, w1) \<Rightarrow> (Inl e, w1)
                | (Inr new_id, w1) \<Rightarrow>
                    (Inr (),
                     setEntries
                       (\<lambda>prev. newEntry\<lparr>entry_id := Some new_id,
                                         entry_created_at := Some (client_time env)\<rparr> # prev)
                       w1))
          else (Inr (), w)
      | _ \<Rightarrow> (Inr (), w))"

text \<open>The \<^verbatim>\<open>try\<close> block: an exception of one step ends it, with the world as that step left it.\<close>

definition try_block ::
  "Env \<Rightarrow> string \<Rightarrow> UserPreferences \<Rightarrow> DiaryEntry list \<Rightarrow> World \<Rightarrow> (error + unit) \<times> World" where
  "try_block env userMessage prefs history w =
     (case generateDiary env userMessage prefs history w of
        (Inl e, w1) \<Rightarrow> (Inl e, w1)
      | (Inr result, w1) \<Rightarrow>
          (case preference_step env result w1 of
             (Inl e, w2) \<Rightarrow> (Inl e, w2)
           | (Inr u, w2) \<Rightarrow>
               (case entry_step env userMessage result w2 of
                  (Inl e, w3) \<Rightarrow> (Inl e, w3)
                | (Inr u', w3) \<Rightarrow>
                    (Inr (), setMessages (\<lambda>prev. prev @ [assistant_turn result]) w3))))"

text \<open>\<^verbatim>\<open>try { ... } catch (error) { ... fallback ... } finally { setIsLoading(false) }\<close>.\<close>

definition pipeline ::
  "Env \<Rightarrow> string \<Rightarrow> UserPreferences \<Rightarrow> DiaryEntry list \<Rightarrow> World \<Rightarrow> World" where
  "pipeline env userMessage prefs history w =
     setIsLoading False
       (case try_block env userMessage prefs history w of
          (Inl e, w1) \<Rightarrow> setMessages (\<lambda>prev. prev @ [fallback_turn]) w1
        | (Inr u, w1) \<Rightarrow> w1)"

text \<open>The guard of \<^verbatim>\<open>handleSend\<close>: \<^verbatim>\<open>if (!input.trim() || isLoading) return\<close>.\<close>

definition rejected :: "World \<Rightarrow> bool" where
  "rejected w \<longleftrightarrow> \<not> truthy (trim (input (app w))) \<or> isLoading (app w)"

text \<open>The part of \<^verbatim>\<open>handleSend\<close> between the guard and the \<^verbatim>\<open>try\<close> block.\<close>

definition begin_send :: "World \<Rightarrow> World" where
  "begin_send w =
     setIsLoading True
       (setMessages (\<lambda>prev. prev @ [user_turn (input (app w))]) (setInput [] w))"

definition handleSend :: "Env \<Rightarrow> World \<Rightarrow> World" where
  "handleSend env w =
     (if rejected w then w
      else pipeline env (input (app w)) (preferences (app w)) (entries (app w)) (begin_send w))"

section \<open>Conversation Session: submissions and their completion as events\<close>

text \<open>
  Between the call of \<^verbatim>\<open>generateDiary\<close> and the end of the run the session takes other events.
  A run in flight holds what \<^verbatim>\<open>handleSend\<close> captured when it started: the message and the
  two snapshots. Every event is handled in the state the event before it left.
\<close>

record Run =
  run_message :: string
  run_preferences :: UserPreferences
  run_history :: "DiaryEntry list"

record Session =
  world :: World
  in_flight :: "Run list"

datatype event = Typing string | Submit | Settle Env

fun step :: "event \<Rightarrow> Session \<Rightarrow> Session" where
  "step (Typing t) s = s\<lparr>world := setInput t (world s)\<rparr>"
| "step Submit s =
     (if rejected (world s) then s
      else s\<lparr>world := begin_send (world s),
             in_flight := in_flight s @
               [\<lparr>run_message = input (app (world s)),
                 run_preferences = preferences (app (world s)),
                 run_history = entries (app (world s))\<rparr>]\<rparr>)"
| "step (Settle env) s =
     (case in_flight s of
        [] \<Rightarrow> s
      | r # rest \<Rightarrow>
          s\<lparr>world := pipeline env (run_message r) (run_preferences r) (run_history r) (world s),
            in_flight := rest\<rparr>)"

definition initial_app :: App where
  "initial_app = \<lparr>entries = [], preferences = [], input = [], isLoading = False, messages = []\<rparr>"

definition initial_session :: "DB \<Rightarrow> Session" where
  "initial_session d = \<lparr>world = \<lparr>app = initial_app, db = d, calls = []\<rparr>, in_flight = []\<rparr>"

section \<open>What a result asks the engine to do\<close>

text \<open>
  The tests of \<^verbatim>\<open>handleSend\<close> as predicates of the result: \<^verbatim>\<open>key && value\<close> under a present
  \<^verbatim>\<open>updatedPreferences\<close>, and \<^verbatim>\<open>result.summary && result.learning\<close>. A step raises when it is
  attempted and its request is rejected (or, for the entry, answered by an error page).
  The store invariant of the data model says that no persisted entry has an empty content,
  summary or learning. \<open>new_row\<close> is the row \<^verbatim>\<open>POST /api/entries\<close> inserts.
\<close>

definition wants_preference :: "GenResult \<Rightarrow> bool" where
  "wants_preference r \<longleftrightarrow>
     (case updatedPreferences r of None \<Rightarrow> False
      | Some up \<Rightarrow> truthy_opt (key up) \<and> truthy_opt (val up))"

definition wants_entry :: "GenResult \<Rightarrow> bool" where
  "wants_entry r \<longleftrightarrow> truthy_opt (summary r) \<and> truthy_opt (learning r)"

definition raises :: "Env \<Rightarrow> GenResult \<Rightarrow> bool" where
  "raises env r \<longleftrightarrow>
     wants_preference r \<and> pref_fault env = Unreachable \<or>
     wants_entry r \<and> entry_fault env \<noteq> NoFault"

text \<open>
  The store requests the two steps send: the body of \<^verbatim>\<open>savePreference(key, value)\<close> when the
  preference step is attempted, the body of \<^verbatim>\<open>saveEntry(newEntry)\<close> when the entry step is.
\<close>

definition preference_calls :: "GenResult \<Rightarrow> call list" where
  "preference_calls r =
     (case updatedPreferences r of
        None \<Rightarrow> []
      | Some up \<Rightarrow>
          (case (key up, val up) of
             (Some k, Some v) \<Rightarrow> if truthy k \<and> truthy v then [PostPreferences k v] else []
           | _ \<Rightarrow> []))"

definition entry_calls :: "string \<Rightarrow> GenResult \<Rightarrow> call list" where
  "entry_calls userMessage r =
     (case (summary r, learning r) of
        (Some s, Some l) \<Rightarrow> if truthy s \<and> truthy l then [PostEntries userMessage s l] else []
      | _ \<Rightarrow> [])"

definition store_invariant :: "DB \<Rightarrow> bool" where
  "store_invariant d \<longleftrightarrow>
     list_all (\<lambda>r. row_content r \<noteq> [] \<and> row_summary r \<noteq> [] \<and> row_learning r \<noteq> [])
       (entries_tbl d)"

definition new_row :: "Env \<Rightarrow> string \<Rightarrow> string \<Rightarrow> string \<Rightarrow> DB \<Rightarrow> Row" where
  "new_row env m s l d =
     \<lparr>row_id = Suc (max (seq d) (fold max (map row_id (entries_tbl d)) 0)), row_content = m,
      row_summary = s, row_learning = l, row_created_at = server_time env\<rparr>"

section \<open>The specification's Context Builder\<close>

text \<open>
  The context block in the words of the specification: every preference rendered as
  \<open>key: value\<close> and joined by newlines, and the first three entries of the history, each
  rendered as \<open>Past Entry: summary\<close>, a newline and \<open>Learning: learning\<close>, joined by blank
  lines. These two definitions are written from the specification, to be compared with
  \<open>prefString\<close> and \<open>historyString\<close>.
\<close>

fun joined_by :: "string \<Rightarrow> string list \<Rightarrow> string" where
  "joined_by sep [] = []"
| "joined_by sep [x] = x"
| "joined_by sep (x # y # ys) = x @ sep @ joined_by sep (y # ys)"

definition spec_preference_block :: "(string \<times> string) list \<Rightarrow> string" where
  "spec_preference_block prefs = joined_by ''\<newline>'' (map (\<lambda>(k, v). k @ '': '' @ v) prefs)"

definition spec_history_block :: "DiaryEntry list \<Rightarrow> string" where
  "spec_history_block history =
     joined_by ''\<newline>\<newline>''
       (map (\<lambda>h. ''Past Entry: '' @ entry_summary h @ ''\<newline>Learning: '' @ entry_learning h)
          (take 3 history))"

section \<open>Auxiliary notions\<close>

text \<open>
  A session is guarded when at most one run is in flight and \<open>isLoading\<close> is set while it
  is. \<open>writes\<close> sends a sequence of bodies to \<^verbatim>\<open>POST /api/preferences\<close>, the first one first.
\<close>

definition guarded :: "Session \<Rightarrow> bool" where
  "guarded s \<longleftrightarrow>
     (case in_flight s of [] \<Rightarrow> True | r # rest \<Rightarrow> rest = [] \<and> isLoading (app (world s)))"

definition writes :: "(string \<times> string) list \<Rightarrow> DB \<Rightarrow> DB" where
  "writes ws d = fold (\<lambda>(k, v). post_preferences k v) ws d"

section \<open>Concrete inputs\<close>

definition example_world :: World where
  "example_world =
     \<lparr>app = initial_app\<lparr>input := ''Studied algorithms, learned merge sort.''\<rparr>,
      db = empty_db, calls = []\<rparr>"

definition blank_world :: World where
  "blank_world = \<lparr>app = initial_app\<lparr>input := '' \<newline>  ''\<rparr>, db = empty_db, calls = []\<rparr>"

definition example_env :: "backend_reply \<Rightarrow> fault \<Rightarrow> fault \<Rightarrow> Env" where
  "example_env b pf ef =
     \<lparr>backend = b, pref_fault = pf, entry_fault = ef, server_time = 100,
      client_time = ''2024-01-01T00:00:00.000Z''\<rparr>"

definition full_result :: GenResult where
  "full_result =
     \<lparr>summary = Some ''Studied algorithms'',
      learning = Some ''Merge sort works by divide and conquer'',
      chatResponse = Some ''Nice work today!'',
      updatedPreferences = Some \<lparr>key = Some ''favorite_subject'', val = Some ''math''\<rparr>\<rparr>"

definition old_row :: Row where
  "old_row = \<lparr>row_id = 1, row_content = ''Read a chapter'', row_summary = ''Read chapter 3'',
               row_learning = ''Recursion needs a base case'', row_created_at = 50\<rparr>"

definition stocked_world :: World where
  "stocked_world = example_world\<lparr>db := \<lparr>entries_tbl = [old_row], seq = 1, preferences_tbl = []\<rparr>\<rparr>"




section \<open>Basic facts\<close>

lemmas setters =
  setInput_def setIsLoading_def setMessages_def setPreferences_def setEntries_def send_def

lemmas run_defs =
  handleSend_def rejected_def pipeline_def try_block_def generateDiary_def begin_send_def
  preference_step_def entry_step_def savePreference_def saveEntry_def post_preferences_def
  post_entries_def assistant_turn_def user_turn_def fallback_turn_def truthy_def trim_def
  js_whitespace_def

lemmas example_defs =
  example_world_def blank_world_def example_env_def initial_app_def empty_db_def empty_object_def

subsection \<open>Strings\<close>

lemma trim_blank:
  assumes "\<forall>c\<in>set s. js_whitespace c"
  shows "trim s = []"
proof -
  from assms have blank: "dropWhile js_whitespace s = []"
    by (induction s) simp_all
  show ?thesis
    unfolding trim_def blank by simp
qed

lemma truthy_opt_iff: "truthy_opt x \<longleftrightarrow> (\<exists>s. x = Some s \<and> s \<noteq> [])"
  by (cases x) (simp_all add: truthy_def)

lemma trim_nonempty: "trim s \<noteq> [] \<Longrightarrow> s \<noteq> []"
  by (auto simp: trim_def)

subsection \<open>The steps of the try block\<close>

lemma preference_step_skip: "\<not> wants_preference r \<Longrightarrow> preference_step env r w = (Inr (), w)"
  by (auto simp: wants_preference_def preference_step_def truthy_opt_iff truthy_def split: option.splits)

lemma entry_step_skip: "\<not> wants_entry r \<Longrightarrow> entry_step env m r w = (Inr (), w)"
  by (auto simp: wants_entry_def entry_step_def truthy_opt_iff truthy_def split: option.splits)

lemma preference_step_db:
  "entries_tbl (db (snd (preference_step env r w))) = entries_tbl (db w) \<and>
   seq (db (snd (preference_step env r w))) = seq (db w) \<and>
   entries (app (snd (preference_step env r w))) = entries (app w) \<and>
   messages (app (snd (preference_step env r w))) = messages (app w) \<and>
   isLoading (app (snd (preference_step env r w))) = isLoading (app w) \<and>
   input (app (snd (preference_step env r w))) = input (app w)"
  by (simp add: preference_step_def savePreference_def post_preferences_def setters Let_def
      split: option.splits fault.splits)

lemma entry_step_app:
  "preferences_tbl (db (snd (entry_step env m r w))) = preferences_tbl (db w) \<and>
   preferences (app (snd (entry_step env m r w))) = preferences (app w) \<and>
   messages (app (snd (entry_step env m r w))) = messages (app w) \<and>
   isLoading (app (snd (entry_step env m r w))) = isLoading (app w) \<and>
   input (app (snd (entry_step env m r w))) = input (app w)"
  by (simp add: entry_step_def saveEntry_def post_entries_def setters Let_def
      split: option.splits fault.splits prod.splits)

lemma preference_step_result:
  "fst (preference_step env r w) =
     (if wants_preference r \<and> pref_fault env = Unreachable then Inl NetworkError else Inr ())"
  by (auto simp: preference_step_def savePreference_def wants_preference_def truthy_opt_iff truthy_def Let_def
      split: option.splits fault.splits)

lemma entry_step_result:
  "fst (entry_step env m r w) =
     (if wants_entry r then
        (case entry_fault env of NoFault \<Rightarrow> Inr () | Unreachable \<Rightarrow> Inl NetworkError
         | StoreError \<Rightarrow> Inl SyntaxError)
      else Inr ())"
  by (auto simp: entry_step_def saveEntry_def wants_entry_def truthy_opt_iff truthy_def Let_def
      split: option.splits fault.splits prod.splits)

lemma generateDiary_snd:
  "snd (generateDiary env c p h w) = send (GenerateContent (systemInstruction p h) c) w"
  by (simp add: generateDiary_def Let_def split: backend_reply.splits reply_text.splits)

lemma generateDiary_fst:
  "fst (generateDiary env c p h w) =
     (case backend env of Rejected \<Rightarrow> Inl GenerationUnavailable
      | Resolved NoText \<Rightarrow> Inr empty_object
      | Resolved NotJSON \<Rightarrow> Inl SyntaxError
      | Resolved (ObjectText r) \<Rightarrow> Inr r)"
  by (simp add: generateDiary_def Let_def split: backend_reply.splits reply_text.splits)

lemma try_block_failed_generation:
  assumes "fst (generateDiary env m p h w) = Inl e"
  shows "try_block env m p h w = (Inl e, send (GenerateContent (systemInstruction p h) m) w)"
  using assms generateDiary_snd [of env m p h w]
  by (cases "generateDiary env m p h w") (simp add: try_block_def)

lemma try_block_result:
  assumes "fst (generateDiary env m p h w) = Inr r"
  shows "try_block env m p h w =
     (let w1 = send (GenerateContent (systemInstruction p h) m) w;
          s2 = preference_step env r w1
      in case fst s2 of Inl e \<Rightarrow> (Inl e, snd s2)
         | Inr u \<Rightarrow>
            (let s3 = entry_step env m r (snd s2)
             in case fst s3 of Inl e \<Rightarrow> (Inl e, snd s3)
                | Inr u' \<Rightarrow> (Inr (), setMessages (\<lambda>prev. prev @ [assistant_turn r]) (snd s3))))"
  using assms generateDiary_snd [of env m p h w]
  by (cases "generateDiary env m p h w")
     (simp add: try_block_def Let_def split: prod.splits sum.splits)

subsection \<open>A whole run\<close>

lemma begin_send_app:
  "messages (app (begin_send w)) = messages (app w) @ [user_turn (input (app w))] \<and>
   entries (app (begin_send w)) = entries (app w) \<and>
   preferences (app (begin_send w)) = preferences (app w) \<and>
   db (begin_send w) = db w \<and> calls (begin_send w) = calls w"
  by (simp add: begin_send_def setters)

lemma pipeline_turns:
  assumes "fst (generateDiary env m p h w) = Inr r"
  shows "messages (app (pipeline env m p h w)) =
           messages (app w) @ [if raises env r then fallback_turn else assistant_turn r] \<and>
         \<not> isLoading (app (pipeline env m p h w))"
proof -
  let ?w1 = "send (GenerateContent (systemInstruction p h) m) w"
  let ?s2 = "preference_step env r ?w1"
  let ?s3 = "entry_step env m r (snd ?s2)"
  have m2: "messages (app (snd ?s2)) = messages (app w)"
    using preference_step_db [of env r ?w1] by (simp add: send_def)
  have m3: "messages (app (snd ?s3)) = messages (app w)"
    using entry_step_app [of env m r "snd ?s2"] m2 by simp
  show ?thesis
    unfolding pipeline_def try_block_result [OF assms] Let_def
    using m2 m3
    by (auto simp: preference_step_result entry_step_result raises_def setters
        split: fault.splits)
qed

lemma pipeline_fallback:
  assumes "fst (generateDiary env m p h w) = Inl e"
  shows "pipeline env m p h w =
     setIsLoading False (setMessages (\<lambda>prev. prev @ [fallback_turn])
       (send (GenerateContent (systemInstruction p h) m) w))"
  by (simp add: pipeline_def try_block_failed_generation [OF assms])

lemma entry_step_run:
  assumes "summary r = Some s" "learning r = Some l" "s \<noteq> []" "l \<noteq> []"
    and "entry_fault env = NoFault"
  shows "entries_tbl (db (snd (entry_step env m r w))) = entries_tbl (db w) @ [new_row env m s l (db w)] \<and>
         entries (app (snd (entry_step env m r w))) =
           \<lparr>entry_id = Some (row_id (new_row env m s l (db w))), entry_content = m,
            entry_summary = s, entry_learning = l,
            entry_created_at = Some (client_time env)\<rparr> # entries (app w) \<and>
         calls (snd (entry_step env m r w)) = calls w @ [PostEntries m s l]"
  using assms
  by (simp add: entry_step_def saveEntry_def post_entries_def new_row_def setters truthy_def Let_def)

lemma entry_step_fail:
  assumes "entry_fault env \<noteq> NoFault"
  shows "db (snd (entry_step env m r w)) = db w \<and>
         entries (app (snd (entry_step env m r w))) = entries (app w)"
  using assms
  by (simp add: entry_step_def saveEntry_def setters Let_def
      split: option.splits fault.splits)

lemma pipeline_entries:
  assumes "fst (generateDiary env m p h w) = Inr r"
    and "summary r = Some s" "learning r = Some l" "s \<noteq> []" "l \<noteq> []"
    and "entry_fault env = NoFault" and "\<not> (wants_preference r \<and> pref_fault env = Unreachable)"
  shows "entries_tbl (db (pipeline env m p h w)) = entries_tbl (db w) @ [new_row env m s l (db w)] \<and>
         entries (app (pipeline env m p h w)) =
           \<lparr>entry_id = Some (row_id (new_row env m s l (db w))), entry_content = m,
            entry_summary = s, entry_learning = l,
            entry_created_at = Some (client_time env)\<rparr> # entries (app w)"
proof -
  let ?w1 = "send (GenerateContent (systemInstruction p h) m) w"
  let ?s2 = "preference_step env r ?w1"
  let ?s3 = "entry_step env m r (snd ?s2)"
  have w: "wants_entry r"
    using assms by (simp add: wants_entry_def truthy_def)
  have d2: "entries_tbl (db (snd ?s2)) = entries_tbl (db w)" "seq (db (snd ?s2)) = seq (db w)"
      "entries (app (snd ?s2)) = entries (app w)"
    using preference_step_db [of env r ?w1] by (simp_all add: send_def)
  have n: "new_row env m s l (db (snd ?s2)) = new_row env m s l (db w)"
    by (simp add: new_row_def d2)
  have f2: "fst ?s2 = Inr ()"
    using assms(7) by (simp add: preference_step_result)
  have f3: "fst ?s3 = Inr ()"
    using w assms(6) by (simp add: entry_step_result)
  show ?thesis
    unfolding pipeline_def try_block_result [OF assms(1)] Let_def
    using entry_step_run [OF assms(2-6), of m "snd ?s2"] d2 n f2 f3
    by (simp add: setters)
qed

lemma pipeline_entries_unchanged:
  assumes "fst (generateDiary env m p h w) = Inr r"
    and "\<not> wants_entry r \<or> entry_fault env \<noteq> NoFault \<or> wants_preference r \<and> pref_fault env = Unreachable"
  shows "entries_tbl (db (pipeline env m p h w)) = entries_tbl (db w) \<and>
         seq (db (pipeline env m p h w)) = seq (db w) \<and>
         entries (app (pipeline env m p h w)) = entries (app w)"
proof -
  let ?w1 = "send (GenerateContent (systemInstruction p h) m) w"
  let ?s2 = "preference_step env r ?w1"
  let ?s3 = "entry_step env m r (snd ?s2)"
  have d2: "entries_tbl (db (snd ?s2)) = entries_tbl (db w)" "seq (db (snd ?s2)) = seq (db w)"
      "entries (app (snd ?s2)) = entries (app w)"
    using preference_step_db [of env r ?w1] by (simp_all add: send_def)
  have d3: "\<not> wants_entry r \<or> entry_fault env \<noteq> NoFault \<Longrightarrow>
      db (snd ?s3) = db (snd ?s2) \<and> entries (app (snd ?s3)) = entries (app (snd ?s2))"
    using entry_step_skip [of r env m "snd ?s2"] entry_step_fail [of env m r "snd ?s2"]
    by auto
  show ?thesis
    unfolding pipeline_def try_block_result [OF assms(1)] Let_def
    using assms(2) d2 d3
    by (auto simp: preference_step_result entry_step_result setters split: sum.splits fault.splits)
qed

lemmas result_defs = full_result_def wants_entry_def wants_preference_def raises_def

lemma preference_step_skip_world:
  assumes "\<not> wants_preference r \<or> pref_fault env = Unreachable"
  shows "db (snd (preference_step env r w)) = db w \<and>
         preferences (app (snd (preference_step env r w))) = preferences (app w)"
  using assms
  by (auto simp: preference_step_def savePreference_def wants_preference_def setters Let_def
      truthy_opt_iff truthy_def split: option.splits fault.splits)

lemma pipeline_preferences_unchanged:
  assumes "fst (generateDiary env m p h w) = Inr r"
    and "\<not> wants_preference r \<or> pref_fault env = Unreachable"
  shows "preferences_tbl (db (pipeline env m p h w)) = preferences_tbl (db w) \<and>
         preferences (app (pipeline env m p h w)) = preferences (app w)"
proof -
  let ?w1 = "send (GenerateContent (systemInstruction p h) m) w"
  let ?s2 = "preference_step env r ?w1"
  let ?s3 = "entry_step env m r (snd ?s2)"
  have d2: "db (snd ?s2) = db w" "preferences (app (snd ?s2)) = preferences (app w)"
    using preference_step_skip_world [OF assms(2), of ?w1] by (simp_all add: send_def)
  have d3: "preferences_tbl (db (snd ?s3)) = preferences_tbl (db w)"
      "preferences (app (snd ?s3)) = preferences (app w)"
    using entry_step_app [of env m r "snd ?s2"] d2 by simp_all
  show ?thesis
    unfolding pipeline_def try_block_result [OF assms(1)] Let_def
    using d2 d3
    by (auto simp: setters split: sum.splits)
qed

lemma pipeline_no_writes:
  assumes "fst (generateDiary env m p h w) = Inr r"
    and "\<not> wants_entry r" and "\<not> wants_preference r"
  shows "pipeline env m p h w =
     setIsLoading False (setMessages (\<lambda>prev. prev @ [assistant_turn r])
       (send (GenerateContent (systemInstruction p h) m) w))"
  unfolding pipeline_def try_block_result [OF assms(1)] Let_def
  by (simp add: preference_step_skip [OF assms(3)] entry_step_skip [OF assms(2)])

subsection \<open>The entries table and its listings\<close>





subsection \<open>What handleSend does to the entries\<close>


lemma handleSend_no_entry:
  assumes "\<not> rejected w" and "backend env = Resolved (ObjectText r)"
    and "\<not> wants_entry r \<or> raises env r"
  shows "entries_tbl (db (handleSend env w)) = entries_tbl (db w) \<and>
         entries (app (handleSend env w)) = entries (app w)"
proof -
  have g: "fst (generateDiary env (input (app w)) (preferences (app w)) (entries (app w))
                 (begin_send w)) = Inr r"
    using assms(2) by (simp add: generateDiary_fst)
  from assms(3) have "\<not> wants_entry r \<or> entry_fault env \<noteq> NoFault \<or>
      wants_preference r \<and> pref_fault env = Unreachable"
    by (auto simp: raises_def)
  from pipeline_entries_unchanged [OF g this] assms(1) show ?thesis
    by (simp add: handleSend_def begin_send_app)
qed

subsection \<open>Joining and slicing\<close>

lemma join_from_joined_by: "join_from R sep xs = joined_by sep (R # xs)"
proof (induction xs arbitrary: R)
  case Nil
  show ?case by simp
next
  case (Cons x xs)
  have "joined_by sep ((R @ sep @ x) # xs) = R @ sep @ joined_by sep (x # xs)"
    by (cases xs) simp_all
  with Cons show ?case by simp
qed

lemma join_joined_by: "join sep xs = joined_by sep xs"
  by (cases xs) (simp_all add: join_def join_from_joined_by)

lemma slice_0_3: "slice 0 3 xs = take 3 xs"
proof -
  have "nat (min 3 (int (length xs))) = min 3 (length xs)"
    by simp
  then show ?thesis
    by (simp add: slice_def Let_def min_def split: if_splits)
qed

subsection \<open>The session\<close>

lemma pipeline_not_loading: "\<not> isLoading (app (pipeline env m p h w))"
  by (simp add: pipeline_def setters split: prod.splits sum.splits)

lemma guarded_step: "guarded s \<Longrightarrow> guarded (step e s)"
proof (cases e)
  case (Typing t)
  assume "guarded s"
  with Typing show ?thesis
    by (simp add: guarded_def setters split: list.splits)
next
  case Submit
  assume "guarded s"
  with Submit show ?thesis
    by (auto simp: guarded_def rejected_def begin_send_def setters split: list.splits)
next
  case (Settle env)
  assume "guarded s"
  with Settle show ?thesis
    by (auto simp: guarded_def split: list.splits)
qed

lemma guarded_fold: "guarded s \<Longrightarrow> guarded (fold step evs s)"
  by (induction evs arbitrary: s) (simp_all add: guarded_step)

lemma guarded_initial: "guarded (initial_session d)"
  by (simp add: guarded_def initial_session_def)

subsection \<open>Objects and the preferences table\<close>

lemma map_of_insert_index:
  "k \<notin> fst ` set obj \<Longrightarrow> map_of (insert_index n k v obj) = (map_of obj)(k \<mapsto> v)"
proof (induction obj)
  case Nil
  show ?case by simp
next
  case (Cons p obj)
  obtain k' v' where p: "p = (k', v')" by (cases p)
  with Cons.prems have "k' \<noteq> k" and "k \<notin> fst ` set obj"
    by auto
  with Cons.IH p show ?case
    by (auto simp: fun_upd_twist split: option.splits)
qed

lemma map_of_replace:
  "map_of (map (\<lambda>(k', v'). if k' = k then (k', v) else (k', v')) obj) =
     (if k \<in> fst ` set obj then (map_of obj)(k \<mapsto> v) else map_of obj)"
  by (induction obj) (auto simp: fun_upd_twist)

lemma map_of_js_define: "map_of (js_define obj k v) = (map_of obj)(k \<mapsto> v)"
proof (cases "k \<in> fst ` set obj")
  case True
  then show ?thesis
    by (simp add: js_define_def map_of_replace)
next
  case False
  then have "map_of obj k = None"
    by (simp add: map_of_eq_None_iff)
  with False show ?thesis
    by (auto simp: js_define_def map_of_insert_index map_add_def fun_eq_iff
        split: option.splits)
qed

lemma map_of_js_assign:
  "map_of (js_assign acc k v) =
     (if k = ''__proto__'' then map_of acc else (map_of acc)(k \<mapsto> v))"
  by (simp add: js_assign_def map_of_js_define)

lemma map_of_reduce:
  "map_of (foldl (\<lambda>acc (k, v). js_assign acc k v) acc rows) k =
     (if k = ''__proto__'' then map_of acc k
      else case map_of (rev rows) k of Some v \<Rightarrow> Some v | None \<Rightarrow> map_of acc k)"
proof (induction rows arbitrary: acc)
  case Nil
  show ?case by simp
next
  case (Cons p rows)
  obtain k' v' where p: "p = (k', v')" by (cases p)
  show ?case
    unfolding p using Cons.IH [of "js_assign acc k' v'"]
    by (auto simp: map_of_js_assign map_add_def split: option.splits)
qed

lemma map_of_rev_distinct: "distinct (map fst xs) \<Longrightarrow> map_of (rev xs) = map_of xs"
  by (rule map_of_inject_set [THEN iffD2]) (simp_all add: rev_map [symmetric])

lemma get_preferences_lookup:
  assumes "distinct (map fst (preferences_tbl d))"
  shows "map_of (get_preferences d) k =
     (if k = ''__proto__'' then None else map_of (preferences_tbl d) k)"
  using assms
  by (simp add: get_preferences_def map_of_reduce map_of_rev_distinct split: option.splits)

lemma post_preferences_distinct:
  "distinct (map fst (preferences_tbl d)) \<Longrightarrow>
   distinct (map fst (preferences_tbl (post_preferences k v d)))"
  by (auto simp: post_preferences_def distinct_map_filter)

lemma post_preferences_lookup:
  "map_of (preferences_tbl (post_preferences k v d)) = (map_of (preferences_tbl d))(k \<mapsto> v)"
proof
  fix x
  have "map_of (filter (\<lambda>(k', v'). k' \<noteq> k) xs) x = (if x = k then None else map_of xs x)"
    for xs :: "(string \<times> string) list"
    by (induction xs) auto
  then show "map_of (preferences_tbl (post_preferences k v d)) x =
      ((map_of (preferences_tbl d))(k \<mapsto> v)) x"
    by (auto simp: post_preferences_def map_add_def split: option.splits)
qed

lemma writes_distinct:
  "distinct (map fst (preferences_tbl d)) \<Longrightarrow> distinct (map fst (preferences_tbl (writes ws d)))"
  unfolding writes_def
  by (induction ws arbitrary: d) (auto simp: post_preferences_distinct)

lemma writes_lookup:
  "map_of (preferences_tbl (writes ws d)) k =
     (case map_of (rev ws) k of Some v \<Rightarrow> Some v | None \<Rightarrow> map_of (preferences_tbl d) k)"
  unfolding writes_def
proof (induction ws arbitrary: d)
  case Nil
  show ?case by simp
next
  case (Cons p ws)
  obtain k' v' where p: "p = (k', v')" by (cases p)
  show ?case
    unfolding p using Cons.IH [of "post_preferences k' v' d"]
    by (auto simp: post_preferences_lookup map_add_def split: option.splits)
qed

subsection \<open>The run as the session sees it\<close>

lemma try_block_raises:
  assumes "fst (generateDiary env m p h w) = Inr r"
  shows "(\<exists>e. fst (try_block env m p h w) = Inl e) \<longleftrightarrow> raises env r"
  unfolding try_block_result [OF assms] Let_def
  by (auto simp: preference_step_result entry_step_result raises_def
      split: sum.splits fault.splits)

lemma submit_then_settle:
  assumes "in_flight s = []" and "\<not> rejected (world s)"
  shows "world (step (Settle env) (step Submit s)) = handleSend env (world s) \<and>
         in_flight (step (Settle env) (step Submit s)) = []"
  using assms by (simp add: handleSend_def)

lemma handleSend_preferences_unchanged:
  assumes "\<not> rejected w" and "backend env = Resolved (ObjectText r)"
    and "\<not> wants_preference r"
  shows "preferences_tbl (db (handleSend env w)) = preferences_tbl (db w) \<and>
         preferences (app (handleSend env w)) = preferences (app w)"
proof -
  have g: "fst (generateDiary env (input (app w)) (preferences (app w)) (entries (app w))
                 (begin_send w)) = Inr r"
    using assms(2) by (simp add: generateDiary_fst)
  from assms(3) have "\<not> wants_preference r \<or> pref_fault env = Unreachable"
    by simp
  from pipeline_preferences_unchanged [OF g this] assms(1) show ?thesis
    by (simp add: handleSend_def begin_send_app)
qed

lemma handleSend_assistant_turn:
  assumes "\<not> rejected w" and "backend env = Resolved (ObjectText r)"
  shows "length (messages (app (handleSend env w))) = length (messages (app w)) + 2 \<and>
         role (last (messages (app (handleSend env w)))) = Assistant"
proof -
  have g: "fst (generateDiary env (input (app w)) (preferences (app w)) (entries (app w))
                 (begin_send w)) = Inr r"
    using assms(2) by (simp add: generateDiary_fst)
  from pipeline_turns [OF g] assms(1) show ?thesis
    by (simp add: handleSend_def begin_send_app assistant_turn_def fallback_turn_def)
qed

subsection \<open>The requests of a run\<close>

lemma preference_calls_empty: "preference_calls r = [] \<longleftrightarrow> \<not> wants_preference r"
  by (auto simp: preference_calls_def wants_preference_def truthy_opt_iff truthy_def
      split: option.splits)

lemma entry_calls_empty: "entry_calls m r = [] \<longleftrightarrow> \<not> wants_entry r"
  by (auto simp: entry_calls_def wants_entry_def truthy_opt_iff truthy_def split: option.splits)

lemma preference_step_calls:
  "calls (snd (preference_step env r w)) = calls w @ preference_calls r"
  by (simp add: preference_step_def preference_calls_def savePreference_def setters Let_def
      split: option.splits fault.splits)

lemma entry_step_calls:
  "calls (snd (entry_step env m r w)) = calls w @ entry_calls m r"
  by (simp add: entry_step_def entry_calls_def saveEntry_def post_entries_def setters Let_def
      split: option.splits fault.splits prod.splits)

lemma pipeline_calls:
  assumes "fst (generateDiary env m p h w) = Inr r"
  shows "calls (pipeline env m p h w) =
     calls w @ [GenerateContent (systemInstruction p h) m] @ preference_calls r @
       (if wants_preference r \<and> pref_fault env = Unreachable then [] else entry_calls m r)"
proof -
  let ?w1 = "send (GenerateContent (systemInstruction p h) m) w"
  let ?s2 = "preference_step env r ?w1"
  let ?s3 = "entry_step env m r (snd ?s2)"
  have c2: "calls (snd ?s2) = calls w @ [GenerateContent (systemInstruction p h) m] @ preference_calls r"
    by (simp add: preference_step_calls send_def)
  have c3: "calls (snd ?s3) = calls (snd ?s2) @ entry_calls m r"
    by (rule entry_step_calls)
  show ?thesis
    unfolding pipeline_def try_block_result [OF assms] Let_def
    using c2 c3
    by (auto simp: preference_step_result setters split: sum.splits)
qed

lemma pipeline_preference_raised:
  assumes "fst (generateDiary env m p h w) = Inr r"
    and "wants_preference r" and "pref_fault env = Unreachable"
  shows "db (pipeline env m p h w) = db w \<and>
         preferences (app (pipeline env m p h w)) = preferences (app w) \<and>
         entries (app (pipeline env m p h w)) = entries (app w)"
proof -
  let ?w1 = "send (GenerateContent (systemInstruction p h) m) w"
  let ?s2 = "preference_step env r ?w1"
  have "db (snd ?s2) = db w" "preferences (app (snd ?s2)) = preferences (app w)"
      "entries (app (snd ?s2)) = entries (app w)"
    using preference_step_skip_world [of r env ?w1] preference_step_db [of env r ?w1] assms(3)
    by (simp_all add: send_def)
  then show ?thesis
    unfolding pipeline_def try_block_result [OF assms(1)] Let_def
    using assms(2,3)
    by (simp add: preference_step_result setters)
qed

lemma preference_step_fault_db:
  "pref_fault env \<noteq> NoFault \<Longrightarrow> db (snd (preference_step env r w)) = db w"
  by (simp add: preference_step_def savePreference_def setters Let_def
      split: option.splits fault.splits)

lemma pipeline_preference_not_applied:
  assumes "fst (generateDiary env m p h w) = Inr r" and "pref_fault env \<noteq> NoFault"
  shows "preferences_tbl (db (pipeline env m p h w)) = preferences_tbl (db w)"
proof -
  let ?w1 = "send (GenerateContent (systemInstruction p h) m) w"
  let ?s2 = "preference_step env r ?w1"
  let ?s3 = "entry_step env m r (snd ?s2)"
  have d2: "db (snd ?s2) = db w"
    using preference_step_fault_db [OF assms(2), of r ?w1] by (simp add: send_def)
  have d3: "preferences_tbl (db (snd ?s3)) = preferences_tbl (db w)"
    using entry_step_app [of env m r "snd ?s2"] d2 by simp
  show ?thesis
    unfolding pipeline_def try_block_result [OF assms(1)] Let_def
    using d2 d3
    by (auto simp: setters split: sum.splits)
qed

section \<open>Generation Client\<close>

text \<open>
  C3, as the code has it. The Generation Client returns an object exactly when the reply has
  an empty text or a text that is a JSON object: the empty object for the empty text, and
  the object as parsed otherwise, with whatever fields it has, also when the required
  \<open>chatResponse\<close> is missing. So it returns the empty object exactly for an empty text and
  for the text of the empty object. A reply whose text is not valid JSON makes the client
  fail with the SyntaxError of \<^verbatim>\<open>JSON.parse\<close>, and a rejected backend call makes it fail too;
  either failure leaves the client and ends the \<^verbatim>\<open>try\<close> block of its caller.
\<close>

theorem generateDiary_reply_cases:
  "(fst (generateDiary env c p h w) = Inr r \<longleftrightarrow>
      backend env = Resolved (ObjectText r) \<or>
      backend env = Resolved NoText \<and> r = empty_object) \<and>
   (fst (generateDiary env c p h w) = Inr empty_object \<longleftrightarrow>
      backend env = Resolved NoText \<or> backend env = Resolved (ObjectText empty_object)) \<and>
   (fst (generateDiary env c p h w) = Inl SyntaxError \<longleftrightarrow> backend env = Resolved NotJSON) \<and>
   (fst (generateDiary env c p h w) = Inl GenerationUnavailable \<longleftrightarrow> backend env = Rejected) \<and>
   fst (generateDiary (env\<lparr>backend := Resolved NoText\<rparr>) c p h w) = Inr empty_object \<and>
   fst (generateDiary (env\<lparr>backend := Resolved NotJSON\<rparr>) c p h w) = Inl SyntaxError \<and>
   fst (generateDiary (env\<lparr>backend := Resolved (ObjectText r)\<rparr>) c p h w) = Inr r \<and>
   fst (generateDiary (env\<lparr>backend := Rejected\<rparr>) c p h w) = Inl GenerationUnavailable \<and>
   fst (try_block (env\<lparr>backend := Resolved NotJSON\<rparr>) c p h w) = Inl SyntaxError \<and>
   fst (try_block (env\<lparr>backend := Rejected\<rparr>) c p h w) = Inl GenerationUnavailable"
proof -
  have cases: "fst (generateDiary env c p h w) = Inr r \<longleftrightarrow>
      backend env = Resolved (ObjectText r) \<or> backend env = Resolved NoText \<and> r = empty_object"
    for r
    by (auto simp: generateDiary_fst split: backend_reply.splits reply_text.splits)
  have syn: "fst (generateDiary env c p h w) = Inl SyntaxError \<longleftrightarrow> backend env = Resolved NotJSON"
    by (auto simp: generateDiary_fst split: backend_reply.splits reply_text.splits)
  have unav: "fst (generateDiary env c p h w) = Inl GenerationUnavailable \<longleftrightarrow> backend env = Rejected"
    by (auto simp: generateDiary_fst split: backend_reply.splits reply_text.splits)
  have t1: "fst (try_block (env\<lparr>backend := Resolved NotJSON\<rparr>) c p h w) = Inl SyntaxError"
    by (simp add: try_block_failed_generation generateDiary_fst)
  have t2: "fst (try_block (env\<lparr>backend := Rejected\<rparr>) c p h w) = Inl GenerationUnavailable"
    by (simp add: try_block_failed_generation generateDiary_fst)
  from cases [of r] cases [of empty_object] syn unav t1 t2 show ?thesis
    by (auto simp: generateDiary_fst)
qed

text \<open>
  C3 as stated fails: for a reply that is not JSON the client does not return the empty
  object, and for an object without \<open>chatResponse\<close> it returns that object.
\<close>

theorem generateDiary_malformed_counterexample:
  "fst (generateDiary (example_env (Resolved NotJSON) NoFault NoFault) ''hello'' [] []
          example_world) \<noteq> Inr empty_object \<and>
   fst (generateDiary
          (example_env (Resolved (ObjectText (empty_object\<lparr>summary := Some ''Studied''\<rparr>)))
             NoFault NoFault) ''hello'' [] [] example_world) \<noteq> Inr empty_object"
  by (simp add: generateDiary_def Let_def example_env_def empty_object_def)

section \<open>Empty submissions\<close>

text \<open>
  C10. When the input is empty or holds white space only, \<^verbatim>\<open>handleSend\<close> returns at its guard:
  the world after the call is the world before it, so no turn is appended, no request is
  sent to the generation backend or to the store, and the store is as it was.
\<close>

theorem blank_submission_is_noop:
  "\<forall>c\<in>set (input (app w)). js_whitespace c \<Longrightarrow> handleSend env w = w"
  by (simp add: handleSend_def rejected_def truthy_def trim_blank)

theorem blank_submission_is_noop_witness:
  "handleSend (example_env Rejected NoFault NoFault) blank_world = blank_world"
  using blank_submission_is_noop [of blank_world "example_env Rejected NoFault NoFault"]
  by (simp add: blank_world_def js_whitespace_def)

section \<open>The turn a run ends with\<close>

text \<open>
  C6, as the code has it. Every run that passes the guard and gets an object from the
  generation backend appends the user's turn and exactly one assistant turn, and resets
  \<open>isLoading\<close>. The assistant turn is the one with \<open>chatResponse\<close> when no step raises, and
  the fixed fallback turn when a step raises. A raising step ends the \<^verbatim>\<open>try\<close> block and the
  steps after it are not attempted: the requests of the run are the generation request, the
  preference request if the result asks for one, and the entry request only if the result
  asks for one and the preference step has not raised. When the preference request is
  rejected, store, preferences and entries are as before; whenever a step raises, no entry
  is created. A preference upsert that the server fails to apply does not raise: the table
  is not written and the turn with \<open>chatResponse\<close> is appended all the same.
\<close>

theorem handleSend_turn:
  assumes "\<not> rejected w" and "backend env = Resolved (ObjectText r)"
  shows "messages (app (handleSend env w)) =
           messages (app w) @
             [user_turn (input (app w)),
              if raises env r then fallback_turn else assistant_turn r] \<and>
         \<not> isLoading (app (handleSend env w)) \<and>
         calls (handleSend env w) =
           calls w @
             [GenerateContent (systemInstruction (preferences (app w)) (entries (app w)))
                (input (app w))] @
             preference_calls r @
             (if wants_preference r \<and> pref_fault env = Unreachable then []
              else entry_calls (input (app w)) r) \<and>
         (wants_preference r \<and> pref_fault env = Unreachable \<longrightarrow>
            db (handleSend env w) = db w \<and>
            preferences (app (handleSend env w)) = preferences (app w) \<and>
            entries (app (handleSend env w)) = entries (app w)) \<and>
         (raises env r \<longrightarrow>
            entries_tbl (db (handleSend env w)) = entries_tbl (db w) \<and>
            entries (app (handleSend env w)) = entries (app w)) \<and>
         (pref_fault env = StoreError \<and> \<not> raises env r \<longrightarrow>
            preferences_tbl (db (handleSend env w)) = preferences_tbl (db w) \<and>
            last (messages (app (handleSend env w))) = assistant_turn r)"
proof -
  have g: "fst (generateDiary env (input (app w)) (preferences (app w)) (entries (app w))
                 (begin_send w)) = Inr r"
    using assms(2) by (simp add: generateDiary_fst)
  have turn: "messages (app (handleSend env w)) =
           messages (app w) @
             [user_turn (input (app w)),
              if raises env r then fallback_turn else assistant_turn r] \<and>
         \<not> isLoading (app (handleSend env w))"
    using assms(1) pipeline_turns [OF g] by (simp add: handleSend_def begin_send_app)
  have sent: "calls (handleSend env w) =
           calls w @
             [GenerateContent (systemInstruction (preferences (app w)) (entries (app w)))
                (input (app w))] @
             preference_calls r @
             (if wants_preference r \<and> pref_fault env = Unreachable then []
              else entry_calls (input (app w)) r)"
    using assms(1) pipeline_calls [OF g] by (simp add: handleSend_def begin_send_app)
  have pref: "wants_preference r \<and> pref_fault env = Unreachable \<longrightarrow>
            db (handleSend env w) = db w \<and>
            preferences (app (handleSend env w)) = preferences (app w) \<and>
            entries (app (handleSend env w)) = entries (app w)"
    using assms(1) pipeline_preference_raised [OF g] by (simp add: handleSend_def begin_send_app)
  have ent: "raises env r \<longrightarrow>
            entries_tbl (db (handleSend env w)) = entries_tbl (db w) \<and>
            entries (app (handleSend env w)) = entries (app w)"
    using handleSend_no_entry [OF assms] by simp
  have silent: "pref_fault env = StoreError \<and> \<not> raises env r \<longrightarrow>
            preferences_tbl (db (handleSend env w)) = preferences_tbl (db w) \<and>
            last (messages (app (handleSend env w))) = assistant_turn r"
    using assms(1) pipeline_preference_not_applied [OF g] turn
    by (simp add: handleSend_def begin_send_app)
  from turn sent pref ent silent show ?thesis
    by blast
qed

theorem handleSend_turn_witness:
  "messages (app (handleSend (example_env (Resolved (ObjectText full_result)) Unreachable NoFault)
                    example_world)) =
     [user_turn ''Studied algorithms, learned merge sort.'', fallback_turn] \<and>
   \<not> isLoading (app (handleSend (example_env (Resolved (ObjectText full_result)) Unreachable
                                  NoFault) example_world)) \<and>
   calls (handleSend (example_env (Resolved (ObjectText full_result)) Unreachable NoFault)
            example_world) =
     [GenerateContent (systemInstruction [] []) ''Studied algorithms, learned merge sort.'',
      PostPreferences ''favorite_subject'' ''math''] \<and>
   db (handleSend (example_env (Resolved (ObjectText full_result)) Unreachable NoFault)
         example_world) = empty_db"
  using handleSend_turn [of example_world
      "example_env (Resolved (ObjectText full_result)) Unreachable NoFault" full_result]
  by (simp add: rejected_def trim_def js_whitespace_def truthy_def example_defs result_defs
      preference_calls_def entry_calls_def)

text \<open>
  C6 as stated fails: with the entry create rejected, or with the preference upsert
  rejected, the last turn is not the one with \<open>chatResponse\<close>; in the second run the entry
  create is never sent although summary and learning are there.
\<close>

theorem store_failure_counterexample:
  "content (last (messages (app (handleSend
      (example_env (Resolved (ObjectText full_result)) NoFault Unreachable) example_world)))) \<noteq>
     chatResponse full_result \<and>
   content (last (messages (app (handleSend
      (example_env (Resolved (ObjectText full_result)) Unreachable NoFault) example_world)))) \<noteq>
     chatResponse full_result \<and>
   calls (handleSend (example_env (Resolved (ObjectText full_result)) Unreachable NoFault)
            example_world) =
     [GenerateContent (systemInstruction [] []) ''Studied algorithms, learned merge sort.'',
      PostPreferences ''favorite_subject'' ''math'']"
  by (simp add: run_defs setters example_defs full_result_def Let_def)

text \<open>
  C1, as the code has it. When the generation call fails (the backend call is rejected, or
  the reply is not valid JSON), the run appends the fixed fallback turn and writes nothing:
  store, preferences and entries are as before. For the empty object of an empty reply the
  run writes nothing either and appends one assistant turn. For a result without
  \<open>chatResponse\<close> the entry and the preference depend on their own fields only: no entry is
  created unless summary and learning are there, no preference is written unless
  \<open>updatedPreferences\<close> has a key and a value, and one assistant turn is appended.
\<close>

theorem failed_generation_fallback:
  assumes "\<not> rejected w"
  shows "(backend env = Rejected \<or> backend env = Resolved NotJSON \<longrightarrow>
            messages (app (handleSend env w)) =
              messages (app w) @ [user_turn (input (app w)), fallback_turn] \<and>
            db (handleSend env w) = db w \<and>
            preferences (app (handleSend env w)) = preferences (app w) \<and>
            entries (app (handleSend env w)) = entries (app w)) \<and>
         (backend env = Resolved NoText \<longrightarrow>
            db (handleSend env w) = db w \<and>
            preferences (app (handleSend env w)) = preferences (app w) \<and>
            entries (app (handleSend env w)) = entries (app w) \<and>
            length (messages (app (handleSend env w))) = length (messages (app w)) + 2 \<and>
            role (last (messages (app (handleSend env w)))) = Assistant) \<and>
         (backend env = Resolved (ObjectText r) \<and> \<not> truthy_opt (chatResponse r) \<longrightarrow>
            (\<not> wants_entry r \<longrightarrow>
               entries_tbl (db (handleSend env w)) = entries_tbl (db w) \<and>
               entries (app (handleSend env w)) = entries (app w)) \<and>
            (\<not> wants_preference r \<longrightarrow>
               preferences_tbl (db (handleSend env w)) = preferences_tbl (db w) \<and>
               preferences (app (handleSend env w)) = preferences (app w)) \<and>
            length (messages (app (handleSend env w))) = length (messages (app w)) + 2 \<and>
            role (last (messages (app (handleSend env w)))) = Assistant)"
proof (intro conjI)
  let ?g = "generateDiary env (input (app w)) (preferences (app w)) (entries (app w))
              (begin_send w)"
  show "backend env = Rejected \<or> backend env = Resolved NotJSON \<longrightarrow>
            messages (app (handleSend env w)) =
              messages (app w) @ [user_turn (input (app w)), fallback_turn] \<and>
            db (handleSend env w) = db w \<and>
            preferences (app (handleSend env w)) = preferences (app w) \<and>
            entries (app (handleSend env w)) = entries (app w)"
  proof
    assume "backend env = Rejected \<or> backend env = Resolved NotJSON"
    then obtain e where "fst ?g = Inl e"
      by (auto simp: generateDiary_fst)
    from pipeline_fallback [OF this] assms
    show "messages (app (handleSend env w)) =
            messages (app w) @ [user_turn (input (app w)), fallback_turn] \<and>
          db (handleSend env w) = db w \<and>
          preferences (app (handleSend env w)) = preferences (app w) \<and>
          entries (app (handleSend env w)) = entries (app w)"
      by (simp add: handleSend_def begin_send_def setters)
  qed
  show "backend env = Resolved NoText \<longrightarrow>
            db (handleSend env w) = db w \<and>
            preferences (app (handleSend env w)) = preferences (app w) \<and>
            entries (app (handleSend env w)) = entries (app w) \<and>
            length (messages (app (handleSend env w))) = length (messages (app w)) + 2 \<and>
            role (last (messages (app (handleSend env w)))) = Assistant"
  proof
    assume "backend env = Resolved NoText"
    then have "fst ?g = Inr empty_object" "\<not> wants_entry empty_object"
        "\<not> wants_preference empty_object"
      by (simp_all add: generateDiary_fst empty_object_def wants_entry_def wants_preference_def)
    from pipeline_no_writes [OF this] assms
    show "db (handleSend env w) = db w \<and>
          preferences (app (handleSend env w)) = preferences (app w) \<and>
          entries (app (handleSend env w)) = entries (app w) \<and>
          length (messages (app (handleSend env w))) = length (messages (app w)) + 2 \<and>
          role (last (messages (app (handleSend env w)))) = Assistant"
      by (simp add: handleSend_def begin_send_def setters assistant_turn_def)
  qed
  show "backend env = Resolved (ObjectText r) \<and> \<not> truthy_opt (chatResponse r) \<longrightarrow>
            (\<not> wants_entry r \<longrightarrow>
               entries_tbl (db (handleSend env w)) = entries_tbl (db w) \<and>
               entries (app (handleSend env w)) = entries (app w)) \<and>
            (\<not> wants_preference r \<longrightarrow>
               preferences_tbl (db (handleSend env w)) = preferences_tbl (db w) \<and>
               preferences (app (handleSend env w)) = preferences (app w)) \<and>
            length (messages (app (handleSend env w))) = length (messages (app w)) + 2 \<and>
            role (last (messages (app (handleSend env w)))) = Assistant"
  proof
    assume "backend env = Resolved (ObjectText r) \<and> \<not> truthy_opt (chatResponse r)"
    then have b: "backend env = Resolved (ObjectText r)"
      by simp
    show "(\<not> wants_entry r \<longrightarrow>
               entries_tbl (db (handleSend env w)) = entries_tbl (db w) \<and>
               entries (app (handleSend env w)) = entries (app w)) \<and>
            (\<not> wants_preference r \<longrightarrow>
               preferences_tbl (db (handleSend env w)) = preferences_tbl (db w) \<and>
               preferences (app (handleSend env w)) = preferences (app w)) \<and>
            length (messages (app (handleSend env w))) = length (messages (app w)) + 2 \<and>
            role (last (messages (app (handleSend env w)))) = Assistant"
      using handleSend_no_entry [OF assms b] handleSend_preferences_unchanged [OF assms b]
        handleSend_assistant_turn [OF assms b]
      by simp
  qed
qed

theorem failed_generation_fallback_witness:
  "messages (app (handleSend (example_env (Resolved NotJSON) NoFault NoFault) example_world)) =
     [user_turn ''Studied algorithms, learned merge sort.'', fallback_turn] \<and>
   db (handleSend (example_env (Resolved NotJSON) NoFault NoFault) example_world) = empty_db \<and>
   db (handleSend (example_env (Resolved NoText) NoFault NoFault) example_world) = empty_db \<and>
   entries_tbl (db (handleSend
     (example_env (Resolved (ObjectText (empty_object\<lparr>chatResponse := Some []\<rparr>))) NoFault NoFault)
     example_world)) = []"
  using failed_generation_fallback [of example_world "example_env (Resolved NotJSON) NoFault NoFault"]
    failed_generation_fallback [of example_world "example_env (Resolved NoText) NoFault NoFault"]
    failed_generation_fallback [of example_world
      "example_env (Resolved (ObjectText (empty_object\<lparr>chatResponse := Some []\<rparr>))) NoFault NoFault"
      "empty_object\<lparr>chatResponse := Some []\<rparr>"]
  by (simp add: rejected_def trim_def js_whitespace_def truthy_def example_defs wants_entry_def)

text \<open>
  C1 as stated fails: a result without \<open>chatResponse\<close> that has a summary, a learning and a
  preference gets its entry and its preference written, and the turn appended for it, as for
  the empty object, is not the fallback turn.
\<close>

theorem absent_chatResponse_counterexample:
  "chatResponse (full_result\<lparr>chatResponse := None\<rparr>) = None \<and>
   last (messages (app (handleSend
      (example_env (Resolved (ObjectText (full_result\<lparr>chatResponse := None\<rparr>))) NoFault NoFault)
      example_world))) \<noteq> fallback_turn \<and>
   length (entries_tbl (db (handleSend
      (example_env (Resolved (ObjectText (full_result\<lparr>chatResponse := None\<rparr>))) NoFault NoFault)
      example_world))) = 1 \<and>
   preferences_tbl (db (handleSend
      (example_env (Resolved (ObjectText (full_result\<lparr>chatResponse := None\<rparr>))) NoFault NoFault)
      example_world)) = [(''favorite_subject'', ''math'')] \<and>
   last (messages (app (handleSend (example_env (Resolved NoText) NoFault NoFault)
      example_world))) \<noteq> fallback_turn"
  by (simp add: run_defs setters example_defs full_result_def Let_def)

section \<open>The record attached to the assistant's turn\<close>

text \<open>
  C2, where the code departs from it: a result with a summary and no learning. The entry
  step is skipped, so no entry is created, but the assistant's turn carries an attached
  record, which the chat view shows under the heading "Diary Entry Created".
\<close>

theorem attached_record_without_entry:
  assumes "\<not> rejected w" and "backend env = Resolved (ObjectText r)"
    and "truthy_opt (summary r)" and "\<not> truthy_opt (learning r)" and "\<not> raises env r"
  shows "data (last (messages (app (handleSend env w)))) =
           Some \<lparr>data_summary = summary r, data_learning = learning r\<rparr> \<and>
         entries_tbl (db (handleSend env w)) = entries_tbl (db w) \<and>
         entries (app (handleSend env w)) = entries (app w)"
proof -
  from assms(4) have "\<not> wants_entry r \<or> raises env r"
    by (simp add: wants_entry_def)
  have g: "fst (generateDiary env (input (app w)) (preferences (app w)) (entries (app w))
                 (begin_send w)) = Inr r"
    using assms(2) by (simp add: generateDiary_fst)
  from handleSend_no_entry [OF assms(1,2) \<open>\<not> wants_entry r \<or> raises env r\<close>]
    pipeline_turns [OF g] assms(1,3,5)
  show ?thesis
    by (simp add: handleSend_def assistant_turn_def)
qed

theorem attached_record_without_entry_witness:
  "let w = handleSend
             (example_env
                (Resolved (ObjectText (empty_object\<lparr>summary := Some ''Studied algorithms'',
                                                     chatResponse := Some ''Nice work today!''\<rparr>)))
                NoFault NoFault)
             example_world
   in data (last (messages (app w))) =
        Some \<lparr>data_summary = Some ''Studied algorithms'', data_learning = None\<rparr> \<and>
      entries_tbl (db w) = [] \<and> entries (app w) = [] \<and>
      calls w =
        [GenerateContent (systemInstruction [] []) ''Studied algorithms, learned merge sort.'']"
  using attached_record_without_entry [of example_world
      "example_env
                (Resolved (ObjectText (empty_object\<lparr>summary := Some ''Studied algorithms'',
                                                     chatResponse := Some ''Nice work today!''\<rparr>)))
                NoFault NoFault"
      "empty_object\<lparr>summary := Some ''Studied algorithms'',
                                                     chatResponse := Some ''Nice work today!''\<rparr>"]
  by (simp add: run_defs setters example_defs Let_def)

section \<open>Entries in the store\<close>




text \<open>
  C8, as the code has it. Every run of \<^verbatim>\<open>handleSend\<close> keeps the store invariant: an entry it
  persists has a content, a summary and a learning that are not empty.
\<close>

theorem pipeline_keeps_store_invariant:
  assumes "store_invariant (db w)"
  shows "store_invariant (db (handleSend env w))"
proof (cases "rejected w")
  case True
  with assms show ?thesis
    by (simp add: handleSend_def)
next
  case False
  let ?g = "generateDiary env (input (app w)) (preferences (app w)) (entries (app w))
              (begin_send w)"
  from False have ne: "input (app w) \<noteq> []"
    by (auto simp: rejected_def truthy_def dest: trim_nonempty)
  show ?thesis
  proof (cases "fst ?g")
    case (Inl e)
    from pipeline_fallback [OF this] False assms show ?thesis
      by (simp add: handleSend_def begin_send_def setters)
  next
    case (Inr r)
    show ?thesis
    proof (cases "wants_entry r \<and> entry_fault env = NoFault \<and>
        \<not> (wants_preference r \<and> pref_fault env = Unreachable)")
      case True
      then obtain s l where sl: "summary r = Some s" "learning r = Some l" "s \<noteq> []" "l \<noteq> []"
        by (auto simp: wants_entry_def truthy_opt_iff)
      from True have f: "entry_fault env = NoFault"
          "\<not> (wants_preference r \<and> pref_fault env = Unreachable)"
        by simp_all
      from pipeline_entries [OF Inr sl f] False assms ne sl(3,4) show ?thesis
        by (simp add: handleSend_def begin_send_app store_invariant_def new_row_def)
    next
      case no: False
      then have "\<not> wants_entry r \<or> entry_fault env \<noteq> NoFault \<or>
          wants_preference r \<and> pref_fault env = Unreachable"
        by blast
      from pipeline_entries_unchanged [OF Inr this] False assms show ?thesis
        by (simp add: handleSend_def begin_send_app store_invariant_def)
    qed
  qed
qed

theorem pipeline_keeps_store_invariant_witness:
  "store_invariant (db (handleSend
      (example_env (Resolved (ObjectText full_result)) NoFault NoFault) stocked_world))"
  using pipeline_keeps_store_invariant [of stocked_world
      "example_env (Resolved (ObjectText full_result)) NoFault NoFault"]
  by (simp add: store_invariant_def stocked_world_def old_row_def)

text \<open>
  C8 as stated fails for the write path of the store itself: \<^verbatim>\<open>POST /api/entries\<close> inserts
  the body as it comes, also with empty strings.
\<close>

theorem post_entries_counterexample:
  "store_invariant empty_db \<and> \<not> store_invariant (snd (post_entries 100 [] [] [] empty_db))"
  by (simp add: store_invariant_def post_entries_def empty_db_def Let_def)

section \<open>Preferences in the store\<close>

text \<open>
  C7, with the one key at which the code departs from it. After any sequence of preference
  writes the keys of the table are still unique, and the table holds for every key the value
  of the last write with that key (or the value it had, if no write has the key). The object
  that \<^verbatim>\<open>GET /api/preferences\<close> returns agrees with the table at every key but \<^verbatim>\<open>__proto__\<close>:
  this key is never in the object, whatever was written.
\<close>

theorem preference_reads:
  assumes "distinct (map fst (preferences_tbl d))"
  shows "distinct (map fst (preferences_tbl (writes ws d))) \<and>
         map_of (preferences_tbl (writes ws d)) k =
           (case map_of (rev ws) k of Some v \<Rightarrow> Some v | None \<Rightarrow> map_of (preferences_tbl d) k) \<and>
         map_of (get_preferences (writes ws d)) k =
           (if k = ''__proto__'' then None else map_of (preferences_tbl (writes ws d)) k)"
  using writes_distinct [OF assms, of ws] writes_lookup [of ws d k]
    get_preferences_lookup [of "writes ws d" k]
  by simp

theorem preference_reads_witness:
  "preferences_tbl (writes [(''__proto__'', ''x'')] empty_db) = [(''__proto__'', ''x'')] \<and>
   get_preferences (writes [(''__proto__'', ''x'')] empty_db) = [] \<and>
   map_of (get_preferences (writes [(''__proto__'', ''x'')] empty_db)) ''__proto__'' = None"
  using preference_reads [of empty_db "[(''__proto__'', ''x'')]" "''__proto__''"]
  by (simp add: writes_def post_preferences_def get_preferences_def js_assign_def empty_db_def)

section \<open>Context Builder\<close>

text \<open>
  C5. The two blocks that \<^verbatim>\<open>generateDiary\<close> builds are the blocks of the specification: the
  preferences as \<open>key: value\<close> lines, and the first three entries of the history, which the
  store lists newest first. The history block depends on the first three entries only and is
  the empty text for an empty history. The blocks are functions of the preferences and the
  history alone, and the request sent to the backend carries the instruction built from
  them.
\<close>

theorem context_builder_meets_spec:
  "prefString prefs = spec_preference_block prefs \<and>
   historyString history = spec_history_block history \<and>
   historyString history = historyString (take 3 history) \<and>
   historyString [] = [] \<and>
   calls (snd (generateDiary env userMessage prefs history w)) =
     calls w @ [GenerateContent (systemInstruction prefs history) userMessage] \<and>
   systemInstruction prefs history = systemInstruction prefs (take 3 history)"
proof -
  have h: "historyString history = historyString (take 3 history)" for history :: "DiaryEntry list"
    by (simp add: historyString_def slice_0_3)
  have s: "systemInstruction prefs history = systemInstruction prefs (take 3 history)"
    unfolding systemInstruction_def using h [of history] by simp
  show ?thesis
    using h [of history] s
    by (simp add: prefString_def spec_preference_block_def historyString_def
        spec_history_block_def join_joined_by slice_0_3 generateDiary_snd send_def)
qed

section \<open>One submission at a time\<close>

text \<open>
  C9. Whatever events the session has taken (typing, submissions, completions of runs), at
  most one run is in flight, and while one is in flight a submission is rejected: it leaves
  the session, and so the snapshots and the turns, as they are. Each event is handled in
  the state the event before it left, as React re-renders the component after each event.
\<close>

theorem one_submission_in_flight:
  "length (in_flight (fold step evs (initial_session d))) \<le> 1 \<and>
   (in_flight (fold step evs (initial_session d)) \<noteq> [] \<longrightarrow>
      step Submit (fold step evs (initial_session d)) = fold step evs (initial_session d))"
proof -
  let ?s = "fold step evs (initial_session d)"
  have g: "guarded ?s"
    by (rule guarded_fold [OF guarded_initial])
  then have "length (in_flight ?s) \<le> 1"
    by (simp add: guarded_def split: list.splits)
  moreover from g have "in_flight ?s \<noteq> [] \<longrightarrow> step Submit ?s = ?s"
    by (auto simp: guarded_def rejected_def split: list.splits)
  ultimately show ?thesis
    by simp
qed

theorem one_submission_in_flight_witness:
  "length (in_flight (fold step [Typing ''Studied algorithms'', Submit, Typing ''One more thing'', Submit]
                        (initial_session empty_db))) = 1 \<and>
   messages (app (world (fold step [Typing ''Studied algorithms'', Submit, Typing ''One more thing'', Submit]
                        (initial_session empty_db)))) = [user_turn ''Studied algorithms'']"
  using one_submission_in_flight [of "[Typing ''Studied algorithms'', Submit, Typing ''One more thing'', Submit]" empty_db]
  by (simp add: initial_session_def initial_app_def rejected_def begin_send_def setters trim_def
      js_whitespace_def truthy_def)

end
